theory Spec2Isabelle
  imports Main "HOL-Library.AList" "HOL-Library.Multiset"
begin

section \<open>JavaScript values, requests and responses\<close>

text \<open>
  The values a parsed JSON request body can hold, plus \<open>undefined\<close>, which is what
  destructuring yields for a property the body does not have. Numbers are restricted to
  integers: no handler computes with them, they are only tested for truthiness and bound
  as statement parameters.
\<close>

datatype jsval =
    JUndefined
  | JNull
  | JBool bool
  | JNum int
  | JStr string
  | JArr "jsval list"
  | JObj "(string \<times> jsval) list"

text \<open>The operand of JavaScript's \<open>!\<close>: \<open>!v\<close> is \<open>\<not> truthy v\<close>.\<close>

fun truthy :: "jsval \<Rightarrow> bool" where
  "truthy JUndefined = False"
| "truthy JNull = False"
| "truthy (JBool b) = b"
| "truthy (JNum n) = (n \<noteq> 0)"
| "truthy (JStr s) = (s \<noteq> [])"
| "truthy (JArr xs) = True"
| "truthy (JObj kvs) = True"

text \<open>\<open>const { k } = req.body\<close>: the property, or \<open>undefined\<close> when it is absent.\<close>

definition field :: "(string \<times> jsval) list \<Rightarrow> string \<Rightarrow> jsval" where
  "field body k = (case map_of body k of None \<Rightarrow> JUndefined | Some v \<Rightarrow> v)"

text \<open>A thrown \<open>Error\<close> object, reduced to its \<open>message\<close>.\<close>

datatype js_error = Error string

fun message :: "js_error \<Rightarrow> string" where
  "message (Error m) = m"

text \<open>One argument of a \<open>console.error\<close> call: a string, or an error object.\<close>

datatype logarg = LStr string | LErr js_error

datatype payload = Json jsval | NoBody | FileContent string

record response =
  status :: nat
  payload :: payload

section \<open>The datastore interface\<close>

text \<open>A row of table \<open>productos\<close>: its primary key and its other columns.\<close>

record row =
  rid :: int
  cols :: "(string \<times> jsval) list"

text \<open>The row as node-postgres hands it over, an object keyed by column name.\<close>

definition row_json :: "row \<Rightarrow> jsval" where
  "row_json r = JObj ((''id'', JNum (rid r)) # cols r)"

text \<open>The result object of \<open>pool.query\<close>.\<close>

record qresult =
  rows :: "row list"
  rowCount :: nat

datatype ordering = ASC | DESC

text \<open>
  The SQL statements of the two files, by shape:
  \<^item> \<open>SelectOrderById o\<close>: \<^verbatim>\<open>SELECT * FROM productos ORDER BY id o\<close>;
  \<^item> \<open>InsertReturning cs\<close>: \<^verbatim>\<open>INSERT INTO productos (cs) VALUES ($1, ..) RETURNING *\<close>;
  \<^item> \<open>UpdateReturning cs\<close>: \<^verbatim>\<open>UPDATE productos SET c1 = $1, .. WHERE id = $n RETURNING *\<close>;
  \<^item> \<open>DeleteWhereId ret\<close>: \<^verbatim>\<open>DELETE FROM productos WHERE id = $1\<close>, with
    \<^verbatim>\<open>RETURNING *\<close> when \<open>ret\<close> holds.
\<close>

datatype stmt =
    SelectOrderById ordering
  | InsertReturning "string list"
  | UpdateReturning "string list"
  | DeleteWhereId bool

text \<open>
  \<open>pool.query(sql, params)\<close> as the handlers see it: it either rejects with an error or
  resolves with a result, and leaves the datastore in a new state.
\<close>

type_synonym 'db query = "stmt \<Rightarrow> jsval list \<Rightarrow> 'db \<Rightarrow> (js_error + qresult) \<times> 'db"

text \<open>What a handler does: the response sent, the \<open>console.error\<close> calls made, the datastore after.\<close>

record 'db outcome =
  resp :: response
  logged :: "logarg list list"
  store :: 'db

definition respond :: "nat \<Rightarrow> payload \<Rightarrow> logarg list list \<Rightarrow> 'db \<Rightarrow> 'db outcome" where
  "respond st p l d = \<lparr>resp = \<lparr>status = st, payload = p\<rparr>, logged = l, store = d\<rparr>"

text \<open>\<open>res.json(result.rows[0])\<close>: \<open>rows[0]\<close> of an empty array is \<open>undefined\<close>.\<close>

definition first_row_json :: "row list \<Rightarrow> jsval" where
  "first_row_json rs = (case rs of [] \<Rightarrow> JUndefined | r # _ \<Rightarrow> row_json r)"

section \<open>Variant A: the handlers of the file with columns descripcion, precio, stock\<close>

text \<open>
  Each handler is a function of the datastore's \<open>query\<close>, of the request (the path
  parameter and the body, as the object that the JSON middleware parsed) and of the
  datastore's state. A \<open>try\<close>/\<open>catch\<close> around an awaited query is the case distinction on
  the query's answer.
\<close>

definition anadir :: string where
  "anadir = ''Error al a'' @ [CHR 0xC3, CHR 0xB1] @ ''adir producto en la base de datos.''"

definition get_productos_A :: "'db query \<Rightarrow> 'db \<Rightarrow> 'db outcome" where
  "get_productos_A q d =
     (case q (SelectOrderById ASC) [] d of
        (Inr result, d') \<Rightarrow> respond 200 (Json (JArr (map row_json (rows result)))) [] d'
      | (Inl err, d') \<Rightarrow>
          respond 500 (Json (JObj [(''error'', JStr ''Error al consultar la base de datos.'')]))
            [[LStr ''Error al obtener productos:'', LStr (message err)]] d')"

definition post_productos_A :: "'db query \<Rightarrow> (string \<times> jsval) list \<Rightarrow> 'db \<Rightarrow> 'db outcome" where
  "post_productos_A q body d =
     (let nombre = field body ''nombre''; descripcion = field body ''descripcion'';
          precio = field body ''precio''; stock = field body ''stock''
      in case q (InsertReturning [''nombre'', ''descripcion'', ''precio'', ''stock''])
                [nombre, descripcion, precio, stock] d of
           (Inr result, d') \<Rightarrow> respond 201 (Json (first_row_json (rows result))) [] d'
         | (Inl err, d') \<Rightarrow>
             respond 500 (Json (JObj [(''error'', JStr anadir)]))
               [[LStr ''Error al crear producto:'', LStr (message err)]] d')"

definition put_productos_A ::
  "'db query \<Rightarrow> string \<Rightarrow> (string \<times> jsval) list \<Rightarrow> 'db \<Rightarrow> 'db outcome" where
  "put_productos_A q pid body d =
     (let nombre = field body ''nombre''; descripcion = field body ''descripcion'';
          precio = field body ''precio''; stock = field body ''stock''
      in case q (UpdateReturning [''nombre'', ''descripcion'', ''precio'', ''stock''])
                [nombre, descripcion, precio, stock, JStr pid] d of
           (Inr result, d') \<Rightarrow>
             if length (rows result) = 0
             then respond 404 (Json (JObj [(''error'', JStr ''Producto no encontrado.'')])) [] d'
             else respond 200 (Json (first_row_json (rows result))) [] d'
         | (Inl err, d') \<Rightarrow>
             respond 500
               (Json (JObj [(''error'', JStr ''Error al actualizar el producto en la base de datos.'')]))
               [[LStr ''Error al actualizar producto:'', LStr (message err)]] d')"

definition delete_productos_A :: "'db query \<Rightarrow> string \<Rightarrow> 'db \<Rightarrow> 'db outcome" where
  "delete_productos_A q pid d =
     (case q (DeleteWhereId False) [JStr pid] d of
        (Inr result, d') \<Rightarrow>
          if rowCount result = 0
          then respond 404 (Json (JObj [(''error'', JStr ''Producto no encontrado para eliminar.'')])) [] d'
          else respond 204 NoBody [] d'
      | (Inl err, d') \<Rightarrow>
          respond 500
            (Json (JObj [(''error'', JStr ''Error al eliminar el producto de la base de datos.'')]))
            [[LStr ''Error al eliminar producto:'', LStr (message err)]] d')"

section \<open>Variant B: the handlers of server.js (columns costo\_venta, cantidad\_disponible, ..)\<close>

definition get_productos_B :: "'db query \<Rightarrow> 'db \<Rightarrow> 'db outcome" where
  "get_productos_B q d =
     (case q (SelectOrderById DESC) [] d of
        (Inr result, d') \<Rightarrow> respond 200 (Json (JArr (map row_json (rows result)))) [] d'
      | (Inl err, d') \<Rightarrow>
          respond 500 (Json (JObj [(''error'', JStr ''Error al consultar la base de datos.'')]))
            [[LStr ''Error al obtener productos:'', LErr err]] d')"

definition columns_B :: "string list" where
  "columns_B = [''nombre'', ''tipo_producto'', ''costo_venta'', ''cantidad_disponible'',
                ''proveedor_id'', ''material'']"

definition post_productos_B :: "'db query \<Rightarrow> (string \<times> jsval) list \<Rightarrow> 'db \<Rightarrow> 'db outcome" where
  "post_productos_B q body d =
     (let nombre = field body ''nombre''; tipo_producto = field body ''tipo_producto'';
          costo_venta = field body ''costo_venta'';
          cantidad_disponible = field body ''cantidad_disponible'';
          proveedor_id = field body ''proveedor_id''; material = field body ''material''
      in if \<not> truthy nombre \<or> \<not> truthy costo_venta
         then respond 400
                (Json (JObj [(''error'', JStr ''Faltan campos obligatorios: nombre y costo_venta.'')]))
                [] d
         else case q (InsertReturning columns_B)
                     [nombre, tipo_producto, costo_venta, cantidad_disponible, proveedor_id, material]
                     d of
                (Inr result, d') \<Rightarrow> respond 201 (Json (first_row_json (rows result))) [] d'
              | (Inl err, d') \<Rightarrow>
                  respond 500
                    (Json (JObj [(''error'', JStr ''Error al crear el producto.''),
                                 (''details'', JStr (message err))]))
                    [[LStr ''Error al crear producto:'', LErr err]] d')"

definition put_productos_B ::
  "'db query \<Rightarrow> string \<Rightarrow> (string \<times> jsval) list \<Rightarrow> 'db \<Rightarrow> 'db outcome" where
  "put_productos_B q pid body d =
     (let nombre = field body ''nombre''; costo_venta = field body ''costo_venta'';
          cantidad_disponible = field body ''cantidad_disponible''
      in case q (UpdateReturning [''nombre'', ''costo_venta'', ''cantidad_disponible''])
                [nombre, costo_venta, cantidad_disponible, JStr pid] d of
           (Inr result, d') \<Rightarrow>
             if rowCount result = 0
             then respond 404
                    (Json (JObj [(''error'', JStr ''Producto no encontrado para actualizar.'')])) [] d'
             else respond 200 (Json (first_row_json (rows result))) [] d'
         | (Inl err, d') \<Rightarrow>
             respond 500
               (Json (JObj [(''error'', JStr ''Error al actualizar el producto.''),
                            (''details'', JStr (message err))]))
               [[LStr ''Error al actualizar producto:'', LErr err]] d')"

text \<open>
  \<open>result.rows[0].id\<close> inside the \<open>try\<close>: on an empty \<open>rows\<close> the property read throws a
  TypeError, which the handler's own \<open>catch\<close> receives.
\<close>

definition delete_failed_B :: "js_error \<Rightarrow> 'db \<Rightarrow> 'db outcome" where
  "delete_failed_B err d =
     respond 500
       (Json (JObj [(''error'', JStr ''Error al eliminar el producto.''),
                    (''details'', JStr (message err))]))
       [[LStr ''Error al eliminar producto:'', LErr err]] d"

definition delete_productos_B :: "'db query \<Rightarrow> string \<Rightarrow> 'db \<Rightarrow> 'db outcome" where
  "delete_productos_B q pid d =
     (case q (DeleteWhereId True) [JStr pid] d of
        (Inr result, d') \<Rightarrow>
          if rowCount result = 0
          then respond 404
                 (Json (JObj [(''error'', JStr ''Producto no encontrado para eliminar.'')])) [] d'
          else (case rows result of
                  [] \<Rightarrow> delete_failed_B
                          (Error ''Cannot read properties of undefined (reading 'id')'') d'
                | r # _ \<Rightarrow>
                    respond 200
                      (Json (JObj [(''message'', JStr ''Producto eliminado correctamente.''),
                                   (''id_eliminado'', JNum (rid r))])) [] d')
      | (Inl err, d') \<Rightarrow> delete_failed_B err d')"

section \<open>Routing\<close>

text \<open>
  Express keeps the routes in registration order and hands a request to the first one
  whose HTTP verb and path pattern both match. A path is given by its segments (the root
  path \<open>/\<close> has none); a pattern segment is a literal or a named parameter such as
  \<open>:id\<close>, which matches any one segment. Literal segments are compared as they are
  spelled in the patterns.
\<close>

datatype verb = GET | POST | PUT | DELETE

datatype handler = ListProductos | CreateProducto | UpdateProducto | DeleteProducto | RootPage

datatype seg = Lit string | Param string

fun match_path :: "seg list \<Rightarrow> string list \<Rightarrow> (string \<times> string) list option" where
  "match_path [] [] = Some []"
| "match_path (Lit l # ps) (x # xs) = (if l = x then match_path ps xs else None)"
| "match_path (Param n # ps) (x # xs) = map_option (\<lambda>params. (n, x) # params) (match_path ps xs)"
| "match_path _ _ = None"

fun dispatch ::
  "(verb \<times> seg list \<times> handler) list \<Rightarrow> verb \<Rightarrow> string list
     \<Rightarrow> (handler \<times> (string \<times> string) list) option" where
  "dispatch [] m path = None"
| "dispatch ((m', pat, h) # rs) m path =
     (if m' = m
      then (case match_path pat path of Some params \<Rightarrow> Some (h, params)
            | None \<Rightarrow> dispatch rs m path)
      else dispatch rs m path)"

definition resource_routes :: "(verb \<times> seg list \<times> handler) list" where
  "resource_routes =
     [(GET, [Lit ''api'', Lit ''productos''], ListProductos),
      (POST, [Lit ''api'', Lit ''productos''], CreateProducto),
      (PUT, [Lit ''api'', Lit ''productos'', Param ''id''], UpdateProducto),
      (DELETE, [Lit ''api'', Lit ''productos'', Param ''id''], DeleteProducto)]"

text \<open>The file with the front-end route registers it last; server.js registers none.\<close>

definition routes_A :: "(verb \<times> seg list \<times> handler) list" where
  "routes_A = resource_routes @ [(GET, [], RootPage)]"

definition routes_B :: "(verb \<times> seg list \<times> handler) list" where
  "routes_B = resource_routes"

text \<open>
  \<open>res.sendFile(path.join(__dirname, 'index.html'))\<close>, over the files of the server's
  directory: the file's content with 200, or the 404 that Express answers when the file
  does not exist.
\<close>

definition root_page :: "(string \<rightharpoonup> string) \<Rightarrow> response" where
  "root_page files =
     (case files ''index.html'' of
        Some html \<Rightarrow> \<lparr>status = 200, payload = FileContent html\<rparr>
      | None \<Rightarrow> \<lparr>status = 404, payload = NoBody\<rparr>)"

text \<open>\<open>req.params.id\<close>.\<close>

definition param_id :: "(string \<times> string) list \<Rightarrow> string" where
  "param_id params = (case map_of params ''id'' of Some s \<Rightarrow> s | None \<Rightarrow> [])"

text \<open>A request that no route matches gets Express's own 404.\<close>

definition app_A ::
  "'db query \<Rightarrow> (string \<rightharpoonup> string) \<Rightarrow> verb \<Rightarrow> string list \<Rightarrow> (string \<times> jsval) list
     \<Rightarrow> 'db \<Rightarrow> 'db outcome" where
  "app_A q files m path body d =
     (case dispatch routes_A m path of
        None \<Rightarrow> respond 404 NoBody [] d
      | Some (ListProductos, params) \<Rightarrow> get_productos_A q d
      | Some (CreateProducto, params) \<Rightarrow> post_productos_A q body d
      | Some (UpdateProducto, params) \<Rightarrow> put_productos_A q (param_id params) body d
      | Some (DeleteProducto, params) \<Rightarrow> delete_productos_A q (param_id params) d
      | Some (RootPage, params) \<Rightarrow> \<lparr>resp = root_page files, logged = [], store = d\<rparr>)"

definition app_B ::
  "'db query \<Rightarrow> verb \<Rightarrow> string list \<Rightarrow> (string \<times> jsval) list \<Rightarrow> 'db \<Rightarrow> 'db outcome" where
  "app_B q m path body d =
     (case dispatch routes_B m path of
        Some (ListProductos, params) \<Rightarrow> get_productos_B q d
      | Some (CreateProducto, params) \<Rightarrow> post_productos_B q body d
      | Some (UpdateProducto, params) \<Rightarrow> put_productos_B q (param_id params) body d
      | Some (DeleteProducto, params) \<Rightarrow> delete_productos_B q (param_id params) d
      | _ \<Rightarrow> respond 404 NoBody [] d)"

section \<open>A reference datastore\<close>

text \<open>
  Modelled from the spec: the relational datastore and the table's schema, which are
  outside the repository. The table is a list of rows in insertion order; \<open>id\<close> is an
  integer that the datastore generates from a counter; every other column holds the bound
  value as it was supplied. The schema's column types and constraints are not known, so
  no statement is rejected for a value it binds to a column other than \<open>id\<close>.
\<close>

record db =
  productos :: "row list"
  next_id :: int

text \<open>
  Modelled from the spec: how a JavaScript value is bound as a statement parameter.
  node-postgres binds \<open>undefined\<close> and \<open>null\<close> alike as SQL NULL; every other value
  is taken to be stored as it was supplied.
\<close>

fun prepare :: "jsval \<Rightarrow> jsval" where
  "prepare JUndefined = JNull"
| "prepare v = v"

text \<open>
  Modelled from the spec: \<open>id\<close> is an integer, so the text bound to \<open>WHERE id = $n\<close> has
  to be an integer literal, here an optional sign and one or more decimal digits.
\<close>

definition is_digit :: "char \<Rightarrow> bool" where
  "is_digit c = (48 \<le> (of_char c :: nat) \<and> (of_char c :: nat) \<le> 57)"

fun digits_val :: "string \<Rightarrow> nat \<Rightarrow> nat option" where
  "digits_val [] acc = Some acc"
| "digits_val (c # cs) acc =
     (if is_digit c then digits_val cs (10 * acc + (of_char c - 48)) else None)"

definition int_literal :: "string \<Rightarrow> int option" where
  "int_literal s =
     (case s of
        [] \<Rightarrow> None
      | c # cs \<Rightarrow>
          if c = CHR ''-'' then (if cs = [] then None else map_option (\<lambda>n. - int n) (digits_val cs 0))
          else if c = CHR ''+'' then (if cs = [] then None else map_option int (digits_val cs 0))
          else map_option int (digits_val s 0))"

text \<open>
  The value bound to \<open>WHERE id = $n\<close>: an error when it is no integer, \<open>None\<close> for NULL
  (which equals no id), the integer otherwise.
\<close>

fun id_param :: "jsval \<Rightarrow> js_error + int option" where
  "id_param (JStr s) =
     (case int_literal s of
        None \<Rightarrow> Inl (Error (''invalid input syntax for type integer: '' @ s))
      | Some n \<Rightarrow> Inr (Some n))"
| "id_param (JNum n) = Inr (Some n)"
| "id_param JNull = Inr None"
| "id_param JUndefined = Inr None"
| "id_param v = Inl (Error ''invalid input syntax for type integer'')"

definition id_is :: "int option \<Rightarrow> row \<Rightarrow> bool" where
  "id_is k r = (k = Some (rid r))"

text \<open>\<open>SET c1 = v1, ..\<close> on one row.\<close>

fun assign :: "(string \<times> jsval) list \<Rightarrow> (string \<times> jsval) list \<Rightarrow> (string \<times> jsval) list" where
  "assign [] cs = cs"
| "assign ((c, v) # kvs) cs = assign kvs (AList.update c v cs)"

definition set_cols :: "(string \<times> jsval) list \<Rightarrow> row \<Rightarrow> row" where
  "set_cols kvs r = r\<lparr>cols := assign kvs (cols r)\<rparr>"

fun order_by :: "ordering \<Rightarrow> row list \<Rightarrow> row list" where
  "order_by ASC rs = sort_key rid rs"
| "order_by DESC rs = sort_key (\<lambda>r. - rid r) rs"

text \<open>
  Modelled from the spec: what the datastore does with each statement. A SELECT returns
  the table ordered by id; an INSERT appends one row under the next id of the counter and
  returns it; an UPDATE rewrites the named columns of the rows whose id equals the last
  parameter and returns those rows; a DELETE removes the rows whose id equals its
  parameter. A statement with the wrong number of parameters, or with an id parameter that
  is no integer, is rejected and changes nothing. Nothing else makes this datastore fail;
  a datastore that can fail at any call is what the handlers are parametric in.
\<close>

definition bind_error :: js_error where
  "bind_error = Error ''bind message supplies the wrong number of parameters''"

fun pool_query :: "db query" where
  "pool_query (SelectOrderById ord) ps d =
     (if ps \<noteq> [] then (Inl bind_error, d)
      else (Inr \<lparr>rows = order_by ord (productos d), rowCount = length (productos d)\<rparr>, d))"
| "pool_query (InsertReturning cs) ps d =
     (if length ps \<noteq> length cs then (Inl bind_error, d)
      else let r = \<lparr>rid = next_id d, cols = zip cs (map prepare ps)\<rparr>
           in (Inr \<lparr>rows = [r], rowCount = 1\<rparr>,
               d\<lparr>productos := productos d @ [r], next_id := next_id d + 1\<rparr>))"
| "pool_query (UpdateReturning cs) ps d =
     (if length ps \<noteq> length cs + 1 then (Inl bind_error, d)
      else case id_param (last ps) of
             Inl err \<Rightarrow> (Inl err, d)
           | Inr k \<Rightarrow>
               let upd = set_cols (zip cs (map prepare (butlast ps)));
                   hit = map upd (filter (id_is k) (productos d))
               in (Inr \<lparr>rows = hit, rowCount = length hit\<rparr>,
                   d\<lparr>productos := map (\<lambda>r. if id_is k r then upd r else r) (productos d)\<rparr>))"
| "pool_query (DeleteWhereId returning) ps d =
     (if length ps \<noteq> 1 then (Inl bind_error, d)
      else case id_param (last ps) of
             Inl err \<Rightarrow> (Inl err, d)
           | Inr k \<Rightarrow>
               let hit = filter (id_is k) (productos d)
               in (Inr \<lparr>rows = (if returning then hit else []), rowCount = length hit\<rparr>,
                   d\<lparr>productos := filter (\<lambda>r. \<not> id_is k r) (productos d)\<rparr>))"

text \<open>The ids present in the table, and the column of a row (NULL when it has none).\<close>

definition ids :: "db \<Rightarrow> int set" where
  "ids d = rid ` set (productos d)"

definition col :: "row \<Rightarrow> string \<Rightarrow> jsval" where
  "col r c = (case map_of (cols r) c of None \<Rightarrow> JNull | Some v \<Rightarrow> v)"

section \<open>Observations on responses, and sample data\<close>

text \<open>The array a list response carries (empty for any other response).\<close>

definition json_rows :: "'db outcome \<Rightarrow> jsval list" where
  "json_rows out = (case payload (resp out) of Json (JArr xs) \<Rightarrow> xs | _ \<Rightarrow> [])"

text \<open>The \<open>id\<close> property of a JSON value.\<close>

fun json_id :: "jsval \<Rightarrow> jsval" where
  "json_id (JObj kvs) = field kvs ''id''"
| "json_id v = JUndefined"

definition error_body :: "string \<Rightarrow> payload" where
  "error_body msg = Json (JObj [(''error'', JStr msg)])"

definition error_details_body :: "string \<Rightarrow> js_error \<Rightarrow> payload" where
  "error_details_body msg err =
     Json (JObj [(''error'', JStr msg), (''details'', JStr (message err))])"

text \<open>
  The specification's wording of the create check: a field is acceptable when it is
  present, non-empty and non-null.
\<close>

definition spec_present :: "jsval \<Rightarrow> bool" where
  "spec_present v = (v \<noteq> JUndefined \<and> v \<noteq> JNull \<and> v \<noteq> JStr [])"



definition empty_db :: db where
  "empty_db = \<lparr>productos = [], next_id = 1\<rparr>"

definition anillo_A :: row where
  "anillo_A = \<lparr>rid = 1, cols = [(''nombre'', JStr ''Anillo''), (''descripcion'', JStr ''plata''),
                                 (''precio'', JNum 150), (''stock'', JNum 5)]\<rparr>"

definition collar_A :: row where
  "collar_A = \<lparr>rid = 2, cols = [(''nombre'', JStr ''Collar''), (''descripcion'', JNull),
                                 (''precio'', JNum 90), (''stock'', JNum 0)]\<rparr>"

definition tienda_A :: db where
  "tienda_A = \<lparr>productos = [anillo_A, collar_A], next_id = 3\<rparr>"

definition anillo_B :: row where
  "anillo_B = \<lparr>rid = 1, cols = [(''nombre'', JStr ''Anillo''), (''tipo_producto'', JStr ''anillo''),
                                 (''costo_venta'', JNum 150), (''cantidad_disponible'', JNum 5),
                                 (''proveedor_id'', JNum 3), (''material'', JStr ''oro'')]\<rparr>"

definition collar_B :: row where
  "collar_B = \<lparr>rid = 2, cols = [(''nombre'', JStr ''Collar''), (''tipo_producto'', JNull),
                                 (''costo_venta'', JNum 90), (''cantidad_disponible'', JNum 0),
                                 (''proveedor_id'', JNull), (''material'', JNull)]\<rparr>"

definition tienda_B :: db where
  "tienda_B = \<lparr>productos = [anillo_B, collar_B], next_id = 3\<rparr>"


section \<open>Facts about the reference datastore\<close>

lemma prepare_supplied: "v \<noteq> JUndefined \<Longrightarrow> prepare v = v"
  by (cases v) simp_all

lemma prepare_omitted: "map_of body c = None \<Longrightarrow> prepare (field body c) = JNull"
  by (simp add: field_def)

lemma json_id_row: "json_id (row_json r) = JNum (rid r)"
  by (simp add: row_json_def field_def)

lemma filter_id_miss: "n \<notin> rid ` set rs \<Longrightarrow> filter (id_is (Some n)) rs = []"
  by (induction rs) (auto simp: id_is_def)

lemma map_id_miss:
  "n \<notin> rid ` set rs \<Longrightarrow> map (\<lambda>r. if id_is (Some n) r then u r else r) rs = rs"
  by (induction rs) (auto simp: id_is_def)

lemma filter_not_id_miss: "n \<notin> rid ` set rs \<Longrightarrow> filter (\<lambda>r. \<not> id_is (Some n) r) rs = rs"
  by (induction rs) (auto simp: id_is_def)

lemma update_miss:
  "int_literal pid = Some n \<Longrightarrow> n \<notin> ids d \<Longrightarrow> length ps = length cs \<Longrightarrow>
   pool_query (UpdateReturning cs) (ps @ [JStr pid]) d = (Inr \<lparr>rows = [], rowCount = 0\<rparr>, d)"
  by (simp add: ids_def filter_id_miss map_id_miss)

lemma delete_miss:
  "int_literal pid = Some n \<Longrightarrow> n \<notin> ids d \<Longrightarrow>
   pool_query (DeleteWhereId ret) [JStr pid] d = (Inr \<lparr>rows = [], rowCount = 0\<rparr>, d)"
  by (simp add: ids_def filter_id_miss filter_not_id_miss)

lemma update_bad:
  "int_literal pid = None \<Longrightarrow> length ps = length cs \<Longrightarrow>
   pool_query (UpdateReturning cs) (ps @ [JStr pid]) d =
     (Inl (Error (''invalid input syntax for type integer: '' @ pid)), d)"
  by simp

lemma delete_bad:
  "int_literal pid = None \<Longrightarrow>
   pool_query (DeleteWhereId ret) [JStr pid] d =
     (Inl (Error (''invalid input syntax for type integer: '' @ pid)), d)"
  by simp

lemma filter_find:
  "find (\<lambda>r. rid r = n) rs = Some r0 \<Longrightarrow> \<exists>rest. filter (id_is (Some n)) rs = r0 # rest"
  by (induction rs) (auto simp: id_is_def split: if_splits)

lemma find_in: "find (\<lambda>r. rid r = n) rs = Some r0 \<Longrightarrow> r0 \<in> set rs \<and> rid r0 = n"
  by (induction rs) (auto split: if_splits)

lemma update_hit:
  assumes "int_literal pid = Some n" and "find (\<lambda>r. rid r = n) (productos d) = Some r0"
    and "length ps = length cs"
  shows "\<exists>rest. pool_query (UpdateReturning cs) (ps @ [JStr pid]) d =
     (Inr \<lparr>rows = set_cols (zip cs (map prepare ps)) r0 # rest, rowCount = Suc (length rest)\<rparr>,
      d\<lparr>productos := map (\<lambda>r. if id_is (Some n) r then set_cols (zip cs (map prepare ps)) r else r)
                         (productos d)\<rparr>)"
proof -
  from filter_find [OF assms(2)] obtain rest
    where "filter (id_is (Some n)) (productos d) = r0 # rest" by blast
  then show ?thesis using assms(1,3)
    by (intro exI [where x = "map (set_cols (zip cs (map prepare ps))) rest"]) (simp add: Let_def)
qed

lemma list_A: "json_rows (get_productos_A pool_query d) = map row_json (sort_key rid (productos d))"
  by (simp add: json_rows_def get_productos_A_def respond_def)

lemma list_B:
  "json_rows (get_productos_B pool_query d) = map row_json (sort_key (\<lambda>r. - rid r) (productos d))"
  by (simp add: json_rows_def get_productos_B_def respond_def)

lemma listed_A: "r \<in> set (productos d) \<Longrightarrow> row_json r \<in> set (json_rows (get_productos_A pool_query d))"
  by (simp add: list_A)

lemma listed_B: "r \<in> set (productos d) \<Longrightarrow> row_json r \<in> set (json_rows (get_productos_B pool_query d))"
  by (simp add: list_B)

lemma rid_set_cols: "rid (set_cols kvs r) = rid r"
  by (simp add: set_cols_def)

lemma col_update:
  "col (r\<lparr>cols := AList.update c v cs\<rparr>) c' = (if c' = c then v else col (r\<lparr>cols := cs\<rparr>) c')"
  by (simp add: col_def update_conv')

lemma col_same: "col (r\<lparr>cols := cols r\<rparr>) c = col r c"
  by (simp add: col_def)

lemma updated_in_table:
  "r0 \<in> set rs \<Longrightarrow> id_is k r0 \<Longrightarrow> u r0 \<in> set (map (\<lambda>r. if id_is k r then u r else r) rs)"
  by (induction rs) auto

lemma put_B_hit:
  assumes "int_literal pid = Some n" and "find (\<lambda>r. rid r = n) (productos d) = Some r0"
  shows "\<exists>r. put_productos_B pool_query pid body d =
               respond 200 (Json (row_json r)) []
                 (store (put_productos_B pool_query pid body d)) \<and>
           rid r = n \<and>
           col r ''nombre'' = prepare (field body ''nombre'') \<and>
           col r ''costo_venta'' = prepare (field body ''costo_venta'') \<and>
           col r ''cantidad_disponible'' = prepare (field body ''cantidad_disponible'') \<and>
           (\<forall>c. c \<notin> {''nombre'', ''costo_venta'', ''cantidad_disponible''} \<longrightarrow> col r c = col r0 c) \<and>
           row_json r \<in> set (json_rows (get_productos_B pool_query
                                 (store (put_productos_B pool_query pid body d))))"
proof -
  let ?cs = "[''nombre'', ''costo_venta'', ''cantidad_disponible'']"
  let ?ps = "[field body ''nombre'', field body ''costo_venta'', field body ''cantidad_disponible'']"
  let ?r = "set_cols (zip ?cs (map prepare ?ps)) r0"
  let ?d' = "d\<lparr>productos := map (\<lambda>r. if id_is (Some n) r then set_cols (zip ?cs (map prepare ?ps)) r else r)
                         (productos d)\<rparr>"
  have "length ?ps = length ?cs" by simp
  from update_hit [OF assms this] obtain rest where
    q: "pool_query (UpdateReturning ?cs) (?ps @ [JStr pid]) d =
     (Inr \<lparr>rows = ?r # rest, rowCount = Suc (length rest)\<rparr>, ?d')" by blast
  have out: "put_productos_B pool_query pid body d = respond 200 (Json (row_json ?r)) [] ?d'"
    using q by (simp add: put_productos_B_def first_row_json_def del: pool_query.simps)
  from find_in [OF assms(2)] have in0: "r0 \<in> set (productos d)" and id0: "rid r0 = n" by simp_all
  have mem: "?r \<in> set (productos (store (put_productos_B pool_query pid body d)))"
    unfolding out using updated_in_table [OF in0, of "Some n"] id0 by (simp add: respond_def id_is_def)
  have cols: "col ?r ''nombre'' = prepare (field body ''nombre'')"
     "col ?r ''costo_venta'' = prepare (field body ''costo_venta'')"
     "col ?r ''cantidad_disponible'' = prepare (field body ''cantidad_disponible'')"
     "\<forall>c. c \<notin> {''nombre'', ''costo_venta'', ''cantidad_disponible''} \<longrightarrow> col ?r c = col r0 c"
    by (simp_all add: set_cols_def col_update col_same)
  have id: "rid ?r = n" using id0 by (simp add: rid_set_cols)
  have st: "put_productos_B pool_query pid body d =
               respond 200 (Json (row_json ?r)) []
                 (store (put_productos_B pool_query pid body d))"
    by (simp add: out respond_def)
  from st id cols listed_B [OF mem] show ?thesis by blast
qed

lemma put_A_hit:
  assumes "int_literal pid = Some n" and "find (\<lambda>r. rid r = n) (productos d) = Some r0"
  shows "\<exists>r. put_productos_A pool_query pid body d =
               respond 200 (Json (row_json r)) []
                 (store (put_productos_A pool_query pid body d)) \<and>
           rid r = n \<and>
           col r ''nombre'' = prepare (field body ''nombre'') \<and>
           col r ''descripcion'' = prepare (field body ''descripcion'') \<and>
           col r ''precio'' = prepare (field body ''precio'') \<and>
           col r ''stock'' = prepare (field body ''stock'') \<and>
           (\<forall>c. c \<notin> {''nombre'', ''descripcion'', ''precio'', ''stock''} \<longrightarrow> col r c = col r0 c) \<and>
           row_json r \<in> set (json_rows (get_productos_A pool_query
                                 (store (put_productos_A pool_query pid body d))))"
proof -
  let ?cs = "[''nombre'', ''descripcion'', ''precio'', ''stock'']"
  let ?ps = "[field body ''nombre'', field body ''descripcion'', field body ''precio'', field body ''stock'']"
  let ?r = "set_cols (zip ?cs (map prepare ?ps)) r0"
  let ?d' = "d\<lparr>productos := map (\<lambda>r. if id_is (Some n) r then set_cols (zip ?cs (map prepare ?ps)) r else r)
                         (productos d)\<rparr>"
  have "length ?ps = length ?cs" by simp
  from update_hit [OF assms this] obtain rest where
    q: "pool_query (UpdateReturning ?cs) (?ps @ [JStr pid]) d =
     (Inr \<lparr>rows = ?r # rest, rowCount = Suc (length rest)\<rparr>, ?d')" by blast
  have out: "put_productos_A pool_query pid body d = respond 200 (Json (row_json ?r)) [] ?d'"
    using q by (simp add: put_productos_A_def first_row_json_def del: pool_query.simps)
  from find_in [OF assms(2)] have in0: "r0 \<in> set (productos d)" and id0: "rid r0 = n" by simp_all
  have mem: "?r \<in> set (productos (store (put_productos_A pool_query pid body d)))"
    unfolding out using updated_in_table [OF in0, of "Some n"] id0 by (simp add: respond_def id_is_def)
  have cols: "col ?r ''nombre'' = prepare (field body ''nombre'')"
     "col ?r ''descripcion'' = prepare (field body ''descripcion'')"
     "col ?r ''precio'' = prepare (field body ''precio'')"
     "col ?r ''stock'' = prepare (field body ''stock'')"
     "\<forall>c. c \<notin> {''nombre'', ''descripcion'', ''precio'', ''stock''} \<longrightarrow> col ?r c = col r0 c"
    by (simp_all add: set_cols_def col_update col_same)
  have id: "rid ?r = n" using id0 by (simp add: rid_set_cols)
  have st: "put_productos_A pool_query pid body d =
               respond 200 (Json (row_json ?r)) []
                 (store (put_productos_A pool_query pid body d))"
    by (simp add: out respond_def)
  from st id cols listed_A [OF mem] show ?thesis by blast
qed

lemma put_A_store:
  "int_literal pid = Some n \<Longrightarrow>
   productos (store (put_productos_A pool_query pid body d)) =
     map (\<lambda>r. if id_is (Some n) r
               then set_cols (zip [''nombre'', ''descripcion'', ''precio'', ''stock'']
                      (map prepare [field body ''nombre'', field body ''descripcion'',
                                    field body ''precio'', field body ''stock''])) r
               else r) (productos d)"
  by (simp add: put_productos_A_def respond_def Let_def)

lemma put_B_store:
  "int_literal pid = Some n \<Longrightarrow>
   productos (store (put_productos_B pool_query pid body d)) =
     map (\<lambda>r. if id_is (Some n) r
               then set_cols (zip [''nombre'', ''costo_venta'', ''cantidad_disponible'']
                      (map prepare [field body ''nombre'', field body ''costo_venta'',
                                    field body ''cantidad_disponible''])) r
               else r) (productos d)"
  by (simp add: put_productos_B_def respond_def Let_def)

lemma in_updated:
  "r \<in> set (map (\<lambda>r. if id_is (Some n) r then u r else r) rs) \<Longrightarrow> rid r = n \<Longrightarrow>
   (\<And>r'. rid (u r') = rid r') \<Longrightarrow> \<exists>r'. r = u r'"
  by (induction rs) (auto simp: id_is_def split: if_splits)




lemma sorted_desc: "sorted_wrt (\<ge>) (map rid (sort_key (\<lambda>r. - rid r) rs))"
proof -
  have "sorted (map (\<lambda>r. - rid r) (sort_key (\<lambda>r. - rid r) rs))" by (rule sorted_sort_key)
  then show ?thesis by (simp add: sorted_wrt_map)
qed

lemma not_id_is: "(\<lambda>r. \<not> id_is (Some n) r) = (\<lambda>r. rid r \<noteq> n)"
  by (auto simp: id_is_def)

lemma filter_hit: "n \<in> rid ` set rs \<Longrightarrow> \<exists>r rest. filter (id_is (Some n)) rs = r # rest \<and> rid r = n"
  by (induction rs) (auto simp: id_is_def)

lemma delete_hit:
  assumes "int_literal pid = Some n" and "n \<in> ids d"
  shows "\<exists>r rest. rid r = n \<and> pool_query (DeleteWhereId ret) [JStr pid] d =
     (Inr \<lparr>rows = (if ret then r # rest else []), rowCount = Suc (length rest)\<rparr>,
      d\<lparr>productos := filter (\<lambda>r. rid r \<noteq> n) (productos d)\<rparr>)"
proof -
  from assms(2) filter_hit obtain r rest
    where "filter (id_is (Some n)) (productos d) = r # rest" and "rid r = n"
    unfolding ids_def by blast
  then show ?thesis using assms(1)
    by (intro exI [where x = r] exI [where x = rest]) (simp add: not_id_is)
qed

lemma removed_id: "n \<notin> ids (d\<lparr>productos := filter (\<lambda>r. rid r \<noteq> n) (productos d)\<rparr>)"
  by (auto simp: ids_def)

lemma not_listed_A:
  "n \<notin> ids d \<Longrightarrow> JNum n \<notin> json_id ` set (json_rows (get_productos_A pool_query d))"
  by (auto simp: list_A json_id_row ids_def)

lemma not_listed_B:
  "n \<notin> ids d \<Longrightarrow> JNum n \<notin> json_id ` set (json_rows (get_productos_B pool_query d))"
  by (auto simp: list_B json_id_row ids_def)

lemma one_row_removed:
  "distinct (map rid rs) \<Longrightarrow> n \<in> rid ` set rs \<Longrightarrow>
   length rs = Suc (length (filter (\<lambda>r. rid r \<noteq> n) rs))"
proof (induction rs)
  case Nil
  then show ?case by simp
next
  case (Cons r rs)
  show ?case
  proof (cases "rid r = n")
    case True
    with Cons.prems have "n \<notin> rid ` set rs" by auto
    then have "filter (\<lambda>r. rid r \<noteq> n) rs = rs" by (induction rs) auto
    with True show ?thesis by simp
  next
    case False
    with Cons show ?thesis by auto
  qed
qed

lemma dispatch_handler:
  "dispatch rs m path = Some (h, ps) \<Longrightarrow> h \<in> (\<lambda>(m, pat, h). h) ` set rs"
  by (induction rs) (auto split: option.splits if_splits)

lemma dispatch_append:
  "dispatch (rs @ rs') m path =
     (case dispatch rs m path of Some hp \<Rightarrow> Some hp | None \<Rightarrow> dispatch rs' m path)"
  by (induction rs) (auto split: option.splits)

lemma store_respond: "store (respond st p l d) = d"
  by (simp add: respond_def)

lemma status_respond: "status (resp (respond st p l d)) = st"
  by (simp add: respond_def)

lemma put_A_store_q:
  "store (put_productos_A q pid body d) =
           snd (q (UpdateReturning [''nombre'', ''descripcion'', ''precio'', ''stock''])
                  [field body ''nombre'', field body ''descripcion'', field body ''precio'',
                   field body ''stock'', JStr pid] d)"
  by (cases "q (UpdateReturning [''nombre'', ''descripcion'', ''precio'', ''stock''])
                  [field body ''nombre'', field body ''descripcion'', field body ''precio'',
                   field body ''stock'', JStr pid] d"; cases "fst (q (UpdateReturning [''nombre'', ''descripcion'', ''precio'', ''stock''])
                  [field body ''nombre'', field body ''descripcion'', field body ''precio'',
                   field body ''stock'', JStr pid] d)")
     (simp_all add: put_productos_A_def store_respond)

lemma put_B_store_q:
  "store (put_productos_B q pid body d) =
           snd (q (UpdateReturning [''nombre'', ''costo_venta'', ''cantidad_disponible''])
                  [field body ''nombre'', field body ''costo_venta'',
                   field body ''cantidad_disponible'', JStr pid] d)"
  by (cases "q (UpdateReturning [''nombre'', ''costo_venta'', ''cantidad_disponible''])
                  [field body ''nombre'', field body ''costo_venta'',
                   field body ''cantidad_disponible'', JStr pid] d"; cases "fst (q (UpdateReturning [''nombre'', ''costo_venta'', ''cantidad_disponible''])
                  [field body ''nombre'', field body ''costo_venta'',
                   field body ''cantidad_disponible'', JStr pid] d)")
     (simp_all add: put_productos_B_def store_respond)

lemma delete_A_store_q:
  "store (delete_productos_A q pid d) = snd (q (DeleteWhereId False) [JStr pid] d)"
  by (cases "q (DeleteWhereId False) [JStr pid] d"; cases "fst (q (DeleteWhereId False) [JStr pid] d)")
     (simp_all add: delete_productos_A_def store_respond)

lemma delete_B_store_q:
  "store (delete_productos_B q pid d) = snd (q (DeleteWhereId True) [JStr pid] d)"
  by (cases "q (DeleteWhereId True) [JStr pid] d"; cases "fst (q (DeleteWhereId True) [JStr pid] d)")
     (simp_all add: delete_productos_B_def delete_failed_B_def store_respond split: list.splits)

lemma put_A_404:
  "q (UpdateReturning [''nombre'', ''descripcion'', ''precio'', ''stock''])
      [field body ''nombre'', field body ''descripcion'', field body ''precio'',
       field body ''stock'', JStr pid] d = (Inr res, d') \<Longrightarrow>
      (status (resp (put_productos_A q pid body d)) = 404) = (length (rows res) = 0)"
  by (simp add: put_productos_A_def status_respond)

lemma put_B_404:
  "q (UpdateReturning [''nombre'', ''costo_venta'', ''cantidad_disponible''])
      [field body ''nombre'', field body ''costo_venta'',
       field body ''cantidad_disponible'', JStr pid] d = (Inr res, d') \<Longrightarrow>
      (status (resp (put_productos_B q pid body d)) = 404) = (rowCount res = 0)"
  by (simp add: put_productos_B_def status_respond)

lemma delete_A_404:
  "q (DeleteWhereId False) [JStr pid] d = (Inr res, d') \<Longrightarrow>
      (status (resp (delete_productos_A q pid d)) = 404) = (rowCount res = 0)"
  by (simp add: delete_productos_A_def status_respond)

lemma delete_B_404:
  "q (DeleteWhereId True) [JStr pid] d = (Inr res, d') \<Longrightarrow>
      (status (resp (delete_productos_B q pid d)) = 404) = (rowCount res = 0)"
  by (simp add: delete_productos_B_def delete_failed_B_def status_respond split: list.splits)

lemma miss_404:
  assumes "int_literal pid = Some n" and "n \<notin> ids d"
  shows "put_productos_A pool_query pid body d =
           respond 404 (error_body ''Producto no encontrado.'') [] d \<and>
         put_productos_B pool_query pid body d =
           respond 404 (error_body ''Producto no encontrado para actualizar.'') [] d \<and>
         delete_productos_A pool_query pid d =
           respond 404 (error_body ''Producto no encontrado para eliminar.'') [] d \<and>
         delete_productos_B pool_query pid d =
           respond 404 (error_body ''Producto no encontrado para eliminar.'') [] d"
proof -
  have a: "put_productos_A pool_query pid body d =
           respond 404 (error_body ''Producto no encontrado.'') [] d"
    using update_miss [OF assms, of "[field body ''nombre'', field body ''descripcion'',
        field body ''precio'', field body ''stock'']"
        "[''nombre'', ''descripcion'', ''precio'', ''stock'']"]
    by (simp add: put_productos_A_def error_body_def del: pool_query.simps)
  have b: "put_productos_B pool_query pid body d =
           respond 404 (error_body ''Producto no encontrado para actualizar.'') [] d"
    using update_miss [OF assms, of "[field body ''nombre'', field body ''costo_venta'',
        field body ''cantidad_disponible'']" "[''nombre'', ''costo_venta'', ''cantidad_disponible'']"]
    by (simp add: put_productos_B_def error_body_def del: pool_query.simps)
  have c: "delete_productos_A pool_query pid d =
           respond 404 (error_body ''Producto no encontrado para eliminar.'') [] d"
    using delete_miss [OF assms, of False]
    by (simp add: delete_productos_A_def error_body_def del: pool_query.simps)
  have e: "delete_productos_B pool_query pid d =
           respond 404 (error_body ''Producto no encontrado para eliminar.'') [] d"
    using delete_miss [OF assms, of True]
    by (simp add: delete_productos_B_def error_body_def del: pool_query.simps)
  from a b c e show ?thesis by simp
qed

lemma bad_id_500:
  assumes "int_literal pid = None"
  shows "put_productos_A pool_query pid body d =
           respond 500 (error_body ''Error al actualizar el producto en la base de datos.'')
             [[LStr ''Error al actualizar producto:'',
               LStr (''invalid input syntax for type integer: '' @ pid)]] d \<and>
         put_productos_B pool_query pid body d =
           respond 500
             (error_details_body ''Error al actualizar el producto.''
                (Error (''invalid input syntax for type integer: '' @ pid)))
             [[LStr ''Error al actualizar producto:'',
               LErr (Error (''invalid input syntax for type integer: '' @ pid))]] d \<and>
         delete_productos_A pool_query pid d =
           respond 500 (error_body ''Error al eliminar el producto de la base de datos.'')
             [[LStr ''Error al eliminar producto:'',
               LStr (''invalid input syntax for type integer: '' @ pid)]] d \<and>
         delete_productos_B pool_query pid d =
           respond 500
             (error_details_body ''Error al eliminar el producto.''
                (Error (''invalid input syntax for type integer: '' @ pid)))
             [[LStr ''Error al eliminar producto:'',
               LErr (Error (''invalid input syntax for type integer: '' @ pid))]] d \<and>
         status (resp (put_productos_A pool_query pid body d)) \<noteq> 404 \<and>
         status (resp (put_productos_B pool_query pid body d)) \<noteq> 404 \<and>
         status (resp (delete_productos_A pool_query pid d)) \<noteq> 404 \<and>
         status (resp (delete_productos_B pool_query pid d)) \<noteq> 404"
proof -
  have a: "put_productos_A pool_query pid body d =
           respond 500 (error_body ''Error al actualizar el producto en la base de datos.'')
             [[LStr ''Error al actualizar producto:'',
               LStr (''invalid input syntax for type integer: '' @ pid)]] d"
    using update_bad [OF assms, of "[field body ''nombre'', field body ''descripcion'',
        field body ''precio'', field body ''stock'']"
        "[''nombre'', ''descripcion'', ''precio'', ''stock'']" d]
    by (simp add: put_productos_A_def error_body_def del: pool_query.simps)
  have b: "put_productos_B pool_query pid body d =
           respond 500
             (error_details_body ''Error al actualizar el producto.''
                (Error (''invalid input syntax for type integer: '' @ pid)))
             [[LStr ''Error al actualizar producto:'',
               LErr (Error (''invalid input syntax for type integer: '' @ pid))]] d"
    using update_bad [OF assms, of "[field body ''nombre'', field body ''costo_venta'',
        field body ''cantidad_disponible'']"
        "[''nombre'', ''costo_venta'', ''cantidad_disponible'']" d]
    by (simp add: put_productos_B_def error_details_body_def del: pool_query.simps)
  have c: "delete_productos_A pool_query pid d =
           respond 500 (error_body ''Error al eliminar el producto de la base de datos.'')
             [[LStr ''Error al eliminar producto:'',
               LStr (''invalid input syntax for type integer: '' @ pid)]] d"
    using delete_bad [OF assms, of False d]
    by (simp add: delete_productos_A_def error_body_def del: pool_query.simps)
  have e: "delete_productos_B pool_query pid d =
           respond 500
             (error_details_body ''Error al eliminar el producto.''
                (Error (''invalid input syntax for type integer: '' @ pid)))
             [[LStr ''Error al eliminar producto:'',
               LErr (Error (''invalid input syntax for type integer: '' @ pid))]] d"
    using delete_bad [OF assms, of True d]
    by (simp add: delete_productos_B_def delete_failed_B_def error_details_body_def
             del: pool_query.simps)
  show ?thesis
    unfolding a b c e by (simp add: respond_def)
qed

section \<open>Create validation\<close>

text \<open>
  C1, as the specification words it, fails: a body whose \<open>nombre\<close> is \<open>"Anillo"\<close> and whose
  \<open>costo_venta\<close> is the number 0 has both fields present, non-empty and non-null, yet
  variant B answers 400, because \<open>!costo_venta\<close> holds for 0.
\<close>

theorem create_B_rejects_zero_cost:
  "spec_present (field [(''nombre'', JStr ''Anillo''), (''costo_venta'', JNum 0)] ''nombre'') \<and>
   spec_present (field [(''nombre'', JStr ''Anillo''), (''costo_venta'', JNum 0)] ''costo_venta'') \<and>
   status (resp (post_productos_B pool_query
                   [(''nombre'', JStr ''Anillo''), (''costo_venta'', JNum 0)] empty_db)) = 400"
  by (simp add: spec_present_def field_def post_productos_B_def respond_def)

text \<open>
  C1, amended: in variant B a create request whose \<open>nombre\<close> or \<open>costo_venta\<close> is falsy
  (absent, null, the empty string, the number 0 or \<open>false\<close>) gets the 400 validation
  error whatever the datastore is, with nothing logged and the datastore untouched; a
  request in which both are truthy goes to the datastore with the INSERT statement and is
  answered 201 or 500. Variant A never validates: every create goes to the datastore.
\<close>

theorem create_validation:
  "(\<not> truthy (field body ''nombre'') \<or> \<not> truthy (field body ''costo_venta'') \<longrightarrow>
      post_productos_B q body d =
        respond 400 (error_body ''Faltan campos obligatorios: nombre y costo_venta.'') [] d) \<and>
   (truthy (field body ''nombre'') \<and> truthy (field body ''costo_venta'') \<longrightarrow>
      status (resp (post_productos_B q body d)) \<in> {201, 500} \<and>
      store (post_productos_B q body d) =
        snd (q (InsertReturning columns_B)
               [field body ''nombre'', field body ''tipo_producto'', field body ''costo_venta'',
                field body ''cantidad_disponible'', field body ''proveedor_id'',
                field body ''material''] d)) \<and>
   status (resp (post_productos_A q body d)) \<in> {201, 500} \<and>
   store (post_productos_A q body d) =
     snd (q (InsertReturning [''nombre'', ''descripcion'', ''precio'', ''stock''])
            [field body ''nombre'', field body ''descripcion'', field body ''precio'',
             field body ''stock''] d)"
  by (auto simp: post_productos_B_def post_productos_A_def respond_def error_body_def Let_def
           split: prod.splits sum.splits)

theorem create_validation_witness:
  "\<not> truthy (field [(''nombre'', JStr ''Anillo''), (''costo_venta'', JStr [])] ''costo_venta'') \<and>
   post_productos_B pool_query [(''nombre'', JStr ''Anillo''), (''costo_venta'', JStr [])] tienda_B =
     respond 400 (error_body ''Faltan campos obligatorios: nombre y costo_venta.'') [] tienda_B \<and>
   truthy (field [(''nombre'', JStr ''Anillo''), (''costo_venta'', JNum 150)] ''nombre'') \<and>
   truthy (field [(''nombre'', JStr ''Anillo''), (''costo_venta'', JNum 150)] ''costo_venta'') \<and>
   status (resp (post_productos_B pool_query
                   [(''nombre'', JStr ''Anillo''), (''costo_venta'', JNum 150)] tienda_B))
     \<in> {201, 500} \<and>
   length (productos (store (post_productos_B pool_query
                   [(''nombre'', JStr ''Anillo''), (''costo_venta'', JNum 150)] tienda_B))) = 3"
  using create_validation [of "[(''nombre'', JStr ''Anillo''), (''costo_venta'', JStr [])]"
                              pool_query tienda_B]
        create_validation [of "[(''nombre'', JStr ''Anillo''), (''costo_venta'', JNum 150)]"
                              pool_query tienda_B]
  by (simp add: field_def columns_B_def tienda_B_def Let_def)

section \<open>Not found\<close>

text \<open>
  C2: when the path's id is an integer that no row of the table has, update and delete of
  both variants answer 404, log nothing and leave the datastore exactly as it was (so no
  row is created or removed). The 404 is decided after the datastore call, from its
  result: whatever the datastore is, a call that resolves is answered 404 exactly when the
  result's \<open>rowCount\<close> is 0 (variant A's update tests the length of \<open>rows\<close> instead,
  which for a statement with RETURNING is the same number).
\<close>

theorem missing_id_not_found:
  "(int_literal pid = Some n \<and> n \<notin> ids d \<longrightarrow>
put_productos_A pool_query pid body d =
           respond 404 (error_body ''Producto no encontrado.'') [] d \<and>
         put_productos_B pool_query pid body d =
           respond 404 (error_body ''Producto no encontrado para actualizar.'') [] d \<and>
         delete_productos_A pool_query pid d =
           respond 404 (error_body ''Producto no encontrado para eliminar.'') [] d \<and>
         delete_productos_B pool_query pid d =
           respond 404 (error_body ''Producto no encontrado para eliminar.'') [] d) \<and>
   (q (UpdateReturning [''nombre'', ''descripcion'', ''precio'', ''stock''])
      [field body ''nombre'', field body ''descripcion'', field body ''precio'',
       field body ''stock'', JStr pid] d = (Inr res, d') \<longrightarrow>
      (status (resp (put_productos_A q pid body d)) = 404) = (length (rows res) = 0)) \<and>
   (q (UpdateReturning [''nombre'', ''costo_venta'', ''cantidad_disponible''])
      [field body ''nombre'', field body ''costo_venta'',
       field body ''cantidad_disponible'', JStr pid] d = (Inr res, d') \<longrightarrow>
      (status (resp (put_productos_B q pid body d)) = 404) = (rowCount res = 0)) \<and>
   (q (DeleteWhereId False) [JStr pid] d = (Inr res, d') \<longrightarrow>
      (status (resp (delete_productos_A q pid d)) = 404) = (rowCount res = 0)) \<and>
   (q (DeleteWhereId True) [JStr pid] d = (Inr res, d') \<longrightarrow>
      (status (resp (delete_productos_B q pid d)) = 404) = (rowCount res = 0))"
proof -
  have a: "int_literal pid = Some n \<and> n \<notin> ids d \<longrightarrow>
put_productos_A pool_query pid body d =
           respond 404 (error_body ''Producto no encontrado.'') [] d \<and>
         put_productos_B pool_query pid body d =
           respond 404 (error_body ''Producto no encontrado para actualizar.'') [] d \<and>
         delete_productos_A pool_query pid d =
           respond 404 (error_body ''Producto no encontrado para eliminar.'') [] d \<and>
         delete_productos_B pool_query pid d =
           respond 404 (error_body ''Producto no encontrado para eliminar.'') [] d"
    using miss_404 [of pid n d body] by blast
  have b: "(q (UpdateReturning [''nombre'', ''descripcion'', ''precio'', ''stock''])
      [field body ''nombre'', field body ''descripcion'', field body ''precio'',
       field body ''stock'', JStr pid] d = (Inr res, d') \<longrightarrow>
      (status (resp (put_productos_A q pid body d)) = 404) = (length (rows res) = 0))"
    using put_A_404 [of q body pid d res d'] by blast
  have c: "(q (UpdateReturning [''nombre'', ''costo_venta'', ''cantidad_disponible''])
      [field body ''nombre'', field body ''costo_venta'',
       field body ''cantidad_disponible'', JStr pid] d = (Inr res, d') \<longrightarrow>
      (status (resp (put_productos_B q pid body d)) = 404) = (rowCount res = 0))"
    using put_B_404 [of q body pid d res d'] by blast
  have e: "(q (DeleteWhereId False) [JStr pid] d = (Inr res, d') \<longrightarrow>
      (status (resp (delete_productos_A q pid d)) = 404) = (rowCount res = 0))"
    using delete_A_404 [of q pid d res d'] by blast
  have f: "(q (DeleteWhereId True) [JStr pid] d = (Inr res, d') \<longrightarrow>
      (status (resp (delete_productos_B q pid d)) = 404) = (rowCount res = 0))"
    using delete_B_404 [of q pid d res d'] by blast
  from a b c e f show ?thesis by (intro conjI)
qed

theorem missing_id_not_found_witness:
  "int_literal ''9999'' = Some 9999 \<and> 9999 \<notin> ids tienda_B \<and>
   put_productos_A pool_query ''9999'' [(''nombre'', JStr ''Aro'')] tienda_B =
     respond 404 (error_body ''Producto no encontrado.'') [] tienda_B \<and>
   put_productos_B pool_query ''9999'' [(''nombre'', JStr ''Aro'')] tienda_B =
     respond 404 (error_body ''Producto no encontrado para actualizar.'') [] tienda_B \<and>
   delete_productos_A pool_query ''9999'' tienda_B =
     respond 404 (error_body ''Producto no encontrado para eliminar.'') [] tienda_B \<and>
   delete_productos_B pool_query ''9999'' tienda_B =
     respond 404 (error_body ''Producto no encontrado para eliminar.'') [] tienda_B \<and>
   pool_query (DeleteWhereId True) [JStr ''1''] tienda_B =
     (Inr \<lparr>rows = [anillo_B], rowCount = 1\<rparr>, \<lparr>productos = [collar_B], next_id = 3\<rparr>) \<and>
   status (resp (put_productos_A pool_query ''1'' [(''nombre'', JStr ''Aro'')] tienda_B)) \<noteq> 404 \<and>
   status (resp (put_productos_B pool_query ''1'' [(''nombre'', JStr ''Aro'')] tienda_B)) \<noteq> 404 \<and>
   status (resp (delete_productos_A pool_query ''1'' tienda_B)) \<noteq> 404 \<and>
   status (resp (delete_productos_B pool_query ''1'' tienda_B)) \<noteq> 404"
proof -
  let ?b = "[(''nombre'', JStr ''Aro'')]"
  have h1: "int_literal ''9999'' = Some 9999"
    by (simp add: int_literal_def is_digit_def)
  have h2: "9999 \<notin> ids tienda_B"
    by (simp add: ids_def tienda_B_def anillo_B_def collar_B_def)
  have one: "int_literal ''1'' = Some 1"
    by (simp add: int_literal_def is_digit_def)
  have m: "put_productos_A pool_query ''9999'' ?b tienda_B =
             respond 404 (error_body ''Producto no encontrado.'') [] tienda_B \<and>
           put_productos_B pool_query ''9999'' ?b tienda_B =
             respond 404 (error_body ''Producto no encontrado para actualizar.'') [] tienda_B \<and>
           delete_productos_A pool_query ''9999'' tienda_B =
             respond 404 (error_body ''Producto no encontrado para eliminar.'') [] tienda_B \<and>
           delete_productos_B pool_query ''9999'' tienda_B =
             respond 404 (error_body ''Producto no encontrado para eliminar.'') [] tienda_B"
    using h1 h2 missing_id_not_found [of "''9999''" 9999 tienda_B ?b] by blast
  have uA: "\<exists>rest. pool_query (UpdateReturning [''nombre'', ''descripcion'', ''precio'', ''stock''])
      [field ?b ''nombre'', field ?b ''descripcion'', field ?b ''precio'', field ?b ''stock'',
       JStr ''1''] tienda_B =
      (Inr \<lparr>rows = [set_cols (zip [''nombre'', ''descripcion'', ''precio'', ''stock'']
                (map prepare [field ?b ''nombre'', field ?b ''descripcion'', field ?b ''precio'',
                   field ?b ''stock''])) anillo_B], rowCount = 1\<rparr>, rest)"
    using one by (simp add: tienda_B_def anillo_B_def collar_B_def id_is_def Let_def)
  have uB: "\<exists>rest. pool_query (UpdateReturning [''nombre'', ''costo_venta'', ''cantidad_disponible''])
      [field ?b ''nombre'', field ?b ''costo_venta'', field ?b ''cantidad_disponible'',
       JStr ''1''] tienda_B =
      (Inr \<lparr>rows = [set_cols (zip [''nombre'', ''costo_venta'', ''cantidad_disponible'']
                (map prepare [field ?b ''nombre'', field ?b ''costo_venta'',
                   field ?b ''cantidad_disponible''])) anillo_B], rowCount = 1\<rparr>, rest)"
    using one by (simp add: tienda_B_def anillo_B_def collar_B_def id_is_def Let_def)
  have dA: "pool_query (DeleteWhereId False) [JStr ''1''] tienda_B =
     (Inr \<lparr>rows = [], rowCount = 1\<rparr>, \<lparr>productos = [collar_B], next_id = 3\<rparr>)"
    using one by (simp add: tienda_B_def anillo_B_def collar_B_def id_is_def Let_def)
  have dB: "pool_query (DeleteWhereId True) [JStr ''1''] tienda_B =
     (Inr \<lparr>rows = [anillo_B], rowCount = 1\<rparr>, \<lparr>productos = [collar_B], next_id = 3\<rparr>)"
    using one by (simp add: tienda_B_def anillo_B_def collar_B_def id_is_def Let_def)
  from uA obtain rA where "pool_query (UpdateReturning [''nombre'', ''descripcion'', ''precio'', ''stock''])
      [field ?b ''nombre'', field ?b ''descripcion'', field ?b ''precio'', field ?b ''stock'',
       JStr ''1''] tienda_B =
      (Inr \<lparr>rows = [set_cols (zip [''nombre'', ''descripcion'', ''precio'', ''stock'']
                (map prepare [field ?b ''nombre'', field ?b ''descripcion'', field ?b ''precio'',
                   field ?b ''stock''])) anillo_B], rowCount = 1\<rparr>, rA)" by blast
  with missing_id_not_found [of "''1''" _ tienda_B ?b pool_query _ rA]
  have a: "status (resp (put_productos_A pool_query ''1'' ?b tienda_B)) \<noteq> 404"
    by (simp del: pool_query.simps)
  from uB obtain rB where "pool_query (UpdateReturning [''nombre'', ''costo_venta'', ''cantidad_disponible''])
      [field ?b ''nombre'', field ?b ''costo_venta'', field ?b ''cantidad_disponible'',
       JStr ''1''] tienda_B =
      (Inr \<lparr>rows = [set_cols (zip [''nombre'', ''costo_venta'', ''cantidad_disponible'']
                (map prepare [field ?b ''nombre'', field ?b ''costo_venta'',
                   field ?b ''cantidad_disponible''])) anillo_B], rowCount = 1\<rparr>, rB)" by blast
  with missing_id_not_found [of "''1''" _ tienda_B ?b pool_query _ rB]
  have b: "status (resp (put_productos_B pool_query ''1'' ?b tienda_B)) \<noteq> 404"
    by (simp del: pool_query.simps)
  from dA missing_id_not_found [of "''1''" _ tienda_B ?b pool_query
         "\<lparr>rows = [], rowCount = 1\<rparr>" "\<lparr>productos = [collar_B], next_id = 3\<rparr>"]
  have c: "status (resp (delete_productos_A pool_query ''1'' tienda_B)) \<noteq> 404"
    by (simp del: pool_query.simps)
  from dB missing_id_not_found [of "''1''" _ tienda_B ?b pool_query
         "\<lparr>rows = [anillo_B], rowCount = 1\<rparr>" "\<lparr>productos = [collar_B], next_id = 3\<rparr>"]
  have e: "status (resp (delete_productos_B pool_query ''1'' tienda_B)) \<noteq> 404"
    by (simp del: pool_query.simps)
  from h1 h2 m dB a b c e show ?thesis by (intro conjI) blast+
qed

section \<open>Update\<close>

text \<open>
  C3: when the path's id is an integer and \<open>r0\<close> is the row of the table with that id,
  update answers 200 with a record \<open>r\<close> that has the same id and whose updated columns
  hold the values bound from the body (\<open>prepare\<close> changes nothing but \<open>undefined\<close>, which
  a JSON body cannot carry); every other column keeps the value it had in \<open>r0\<close>, and a
  list request made afterwards returns \<open>r\<close>. Variant A updates nombre, descripcion,
  precio and stock; variant B updates nombre, costo\_venta and cantidad\_disponible and
  ignores any other field of the body.
\<close>

theorem update_existing:
  assumes "int_literal pid = Some n" and "find (\<lambda>r. rid r = n) (productos d) = Some r0"
  shows "(\<exists>r. put_productos_A pool_query pid body d =
               respond 200 (Json (row_json r)) []
                 (store (put_productos_A pool_query pid body d)) \<and>
           rid r = n \<and>
           col r ''nombre'' = prepare (field body ''nombre'') \<and>
           col r ''descripcion'' = prepare (field body ''descripcion'') \<and>
           col r ''precio'' = prepare (field body ''precio'') \<and>
           col r ''stock'' = prepare (field body ''stock'') \<and>
           (\<forall>c. c \<notin> {''nombre'', ''descripcion'', ''precio'', ''stock''} \<longrightarrow> col r c = col r0 c) \<and>
           row_json r \<in> set (json_rows (get_productos_A pool_query
                                 (store (put_productos_A pool_query pid body d))))) \<and>
         (\<exists>r. put_productos_B pool_query pid body d =
               respond 200 (Json (row_json r)) []
                 (store (put_productos_B pool_query pid body d)) \<and>
           rid r = n \<and>
           col r ''nombre'' = prepare (field body ''nombre'') \<and>
           col r ''costo_venta'' = prepare (field body ''costo_venta'') \<and>
           col r ''cantidad_disponible'' = prepare (field body ''cantidad_disponible'') \<and>
           (\<forall>c. c \<notin> {''nombre'', ''costo_venta'', ''cantidad_disponible''} \<longrightarrow> col r c = col r0 c) \<and>
           row_json r \<in> set (json_rows (get_productos_B pool_query
                                 (store (put_productos_B pool_query pid body d)))))"
  using put_A_hit [OF assms] put_B_hit [OF assms] by (rule conjI)

theorem update_existing_witness:
  "int_literal ''1'' = Some 1 \<and>
   find (\<lambda>r. rid r = 1) (productos tienda_A) = Some anillo_A \<and>
   (\<exists>r. put_productos_A pool_query ''1'' [(''nombre'', JStr ''Aro''), (''precio'', JNum 9)] tienda_A =
          respond 200 (Json (row_json r)) []
            (store (put_productos_A pool_query ''1'' [(''nombre'', JStr ''Aro''), (''precio'', JNum 9)] tienda_A)) \<and>
        rid r = 1 \<and> col r ''nombre'' = JStr ''Aro'' \<and> col r ''precio'' = JNum 9 \<and>
        row_json r \<in> set (json_rows (get_productos_A pool_query
           (store (put_productos_A pool_query ''1'' [(''nombre'', JStr ''Aro''), (''precio'', JNum 9)] tienda_A))))) \<and>
   find (\<lambda>r. rid r = 1) (productos tienda_B) = Some anillo_B \<and>
   (\<exists>r. put_productos_B pool_query ''1'' [(''nombre'', JStr ''Aro''), (''material'', JStr ''plata'')] tienda_B =
          respond 200 (Json (row_json r)) []
            (store (put_productos_B pool_query ''1'' [(''nombre'', JStr ''Aro''), (''material'', JStr ''plata'')] tienda_B)) \<and>
        rid r = 1 \<and> col r ''nombre'' = JStr ''Aro'' \<and> col r ''material'' = JStr ''oro'' \<and>
        row_json r \<in> set (json_rows (get_productos_B pool_query
           (store (put_productos_B pool_query ''1'' [(''nombre'', JStr ''Aro''), (''material'', JStr ''plata'')] tienda_B)))))"
proof -
  let ?bA = "[(''nombre'', JStr ''Aro''), (''precio'', JNum 9)]"
  let ?bB = "[(''nombre'', JStr ''Aro''), (''material'', JStr ''plata'')]"
  have h1: "int_literal ''1'' = Some 1"
    by (simp add: int_literal_def is_digit_def)
  have h2: "find (\<lambda>r. rid r = 1) (productos tienda_A) = Some anillo_A"
    by (simp add: tienda_A_def anillo_A_def)
  have h3: "find (\<lambda>r. rid r = 1) (productos tienda_B) = Some anillo_B"
    by (simp add: tienda_B_def anillo_B_def)
  have c: "col anillo_B ''material'' = JStr ''oro''"
    by (simp add: col_def anillo_B_def)
  have fA: "prepare (field ?bA ''nombre'') = JStr ''Aro''" "prepare (field ?bA ''precio'') = JNum 9"
    by (simp_all add: field_def)
  have fB: "prepare (field ?bB ''nombre'') = JStr ''Aro''"
    by (simp add: field_def)
  from update_existing [OF h1 h2, of ?bA] obtain r where
    r: "put_productos_A pool_query ''1'' ?bA tienda_A =
          respond 200 (Json (row_json r)) [] (store (put_productos_A pool_query ''1'' ?bA tienda_A))"
       "rid r = 1" "col r ''nombre'' = prepare (field ?bA ''nombre'')"
       "col r ''precio'' = prepare (field ?bA ''precio'')"
       "row_json r \<in> set (json_rows (get_productos_A pool_query
           (store (put_productos_A pool_query ''1'' ?bA tienda_A))))"
    by blast
  have a: "\<exists>r. put_productos_A pool_query ''1'' ?bA tienda_A =
          respond 200 (Json (row_json r)) [] (store (put_productos_A pool_query ''1'' ?bA tienda_A)) \<and>
        rid r = 1 \<and> col r ''nombre'' = JStr ''Aro'' \<and> col r ''precio'' = JNum 9 \<and>
        row_json r \<in> set (json_rows (get_productos_A pool_query
           (store (put_productos_A pool_query ''1'' ?bA tienda_A))))"
    using r unfolding fA by (intro exI [where x = r] conjI)
  from update_existing [OF h1 h3, of ?bB] obtain s where
    s: "put_productos_B pool_query ''1'' ?bB tienda_B =
          respond 200 (Json (row_json s)) [] (store (put_productos_B pool_query ''1'' ?bB tienda_B))"
       "rid s = 1" "col s ''nombre'' = prepare (field ?bB ''nombre'')"
       "\<forall>c. c \<notin> {''nombre'', ''costo_venta'', ''cantidad_disponible''} \<longrightarrow> col s c = col anillo_B c"
       "row_json s \<in> set (json_rows (get_productos_B pool_query
           (store (put_productos_B pool_query ''1'' ?bB tienda_B))))"
    by blast
  from s(4) c have m: "col s ''material'' = JStr ''oro''" by simp
  have b: "\<exists>r. put_productos_B pool_query ''1'' ?bB tienda_B =
          respond 200 (Json (row_json r)) [] (store (put_productos_B pool_query ''1'' ?bB tienda_B)) \<and>
        rid r = 1 \<and> col r ''nombre'' = JStr ''Aro'' \<and> col r ''material'' = JStr ''oro'' \<and>
        row_json r \<in> set (json_rows (get_productos_B pool_query
           (store (put_productos_B pool_query ''1'' ?bB tienda_B))))"
    using s(1,2,3,5) m unfolding fB by (intro exI [where x = s] conjI)
  from h1 h2 a h3 b show ?thesis by (intro conjI)
qed

section \<open>Create, then list\<close>



section \<open>Datastore failures\<close>




section \<open>List\<close>

text \<open>
  C6: list takes no input and answers 200 with every row of the table, each once, ordered
  by id: ascending in variant A, descending in variant B. The datastore is left as it was.
  On an empty table the answer is 200 with the empty array.
\<close>

theorem list_all_ordered:
  "(\<exists>rs. get_productos_A pool_query d = respond 200 (Json (JArr (map row_json rs))) [] d \<and>
         mset rs = mset (productos d) \<and> sorted_wrt (\<le>) (map rid rs)) \<and>
   (\<exists>rs. get_productos_B pool_query d = respond 200 (Json (JArr (map row_json rs))) [] d \<and>
         mset rs = mset (productos d) \<and> sorted_wrt (\<ge>) (map rid rs)) \<and>
   get_productos_A pool_query \<lparr>productos = [], next_id = k\<rparr> =
     respond 200 (Json (JArr [])) [] \<lparr>productos = [], next_id = k\<rparr> \<and>
   get_productos_B pool_query \<lparr>productos = [], next_id = k\<rparr> =
     respond 200 (Json (JArr [])) [] \<lparr>productos = [], next_id = k\<rparr>"
proof (intro conjI)
  show "\<exists>rs. get_productos_A pool_query d = respond 200 (Json (JArr (map row_json rs))) [] d \<and>
         mset rs = mset (productos d) \<and> sorted_wrt (\<le>) (map rid rs)"
    by (rule exI [where x = "sort_key rid (productos d)"])
       (simp add: get_productos_A_def)
  show "\<exists>rs. get_productos_B pool_query d = respond 200 (Json (JArr (map row_json rs))) [] d \<and>
         mset rs = mset (productos d) \<and> sorted_wrt (\<ge>) (map rid rs)"
    by (rule exI [where x = "sort_key (\<lambda>r. - rid r) (productos d)"])
       (simp add: get_productos_B_def sorted_desc)
  show "get_productos_A pool_query \<lparr>productos = [], next_id = k\<rparr> =
     respond 200 (Json (JArr [])) [] \<lparr>productos = [], next_id = k\<rparr>"
    by (simp add: get_productos_A_def)
  show "get_productos_B pool_query \<lparr>productos = [], next_id = k\<rparr> =
     respond 200 (Json (JArr [])) [] \<lparr>productos = [], next_id = k\<rparr>"
    by (simp add: get_productos_B_def)
qed

theorem list_all_ordered_witness:
  "(\<exists>rs. get_productos_A pool_query tienda_A =
          respond 200 (Json (JArr (map row_json rs))) [] tienda_A \<and>
         mset rs = mset (productos tienda_A) \<and> sorted_wrt (\<le>) (map rid rs)) \<and>
   (\<exists>rs. get_productos_B pool_query tienda_B =
          respond 200 (Json (JArr (map row_json rs))) [] tienda_B \<and>
         mset rs = mset (productos tienda_B) \<and> sorted_wrt (\<ge>) (map rid rs)) \<and>
   get_productos_A pool_query empty_db = respond 200 (Json (JArr [])) [] empty_db \<and>
   get_productos_B pool_query empty_db = respond 200 (Json (JArr [])) [] empty_db"
  using list_all_ordered [of tienda_A 1] list_all_ordered [of tienda_B 1]
  unfolding empty_db_def by (intro conjI) (elim conjE, assumption)+

section \<open>Delete\<close>

text \<open>
  C7: when the path's id is an integer that a row of the table has, delete removes the rows
  with that id and no other (exactly one row when ids are distinct), and answers 204 with
  no body in variant A, 200 with \<open>message\<close> and \<open>id_eliminado\<close> in variant B. A list request
  made afterwards returns no row with that id, and a second delete of the same id answers
  404.
\<close>

theorem delete_existing:
  assumes "int_literal pid = Some n" and "n \<in> ids d"
  shows "delete_productos_A pool_query pid d =
           respond 204 NoBody [] (d\<lparr>productos := filter (\<lambda>r. rid r \<noteq> n) (productos d)\<rparr>) \<and>
         delete_productos_B pool_query pid d =
           respond 200
             (Json (JObj [(''message'', JStr ''Producto eliminado correctamente.''),
                          (''id_eliminado'', JNum n)])) []
             (d\<lparr>productos := filter (\<lambda>r. rid r \<noteq> n) (productos d)\<rparr>) \<and>
         (distinct (map rid (productos d)) \<longrightarrow>
            length (productos d) = Suc (length (filter (\<lambda>r. rid r \<noteq> n) (productos d)))) \<and>
         JNum n \<notin> json_id ` set (json_rows (get_productos_A pool_query
                     (d\<lparr>productos := filter (\<lambda>r. rid r \<noteq> n) (productos d)\<rparr>))) \<and>
         JNum n \<notin> json_id ` set (json_rows (get_productos_B pool_query
                     (d\<lparr>productos := filter (\<lambda>r. rid r \<noteq> n) (productos d)\<rparr>))) \<and>
         status (resp (delete_productos_A pool_query pid
                     (d\<lparr>productos := filter (\<lambda>r. rid r \<noteq> n) (productos d)\<rparr>))) = 404 \<and>
         status (resp (delete_productos_B pool_query pid
                     (d\<lparr>productos := filter (\<lambda>r. rid r \<noteq> n) (productos d)\<rparr>))) = 404"
proof -
  let ?d' = "d\<lparr>productos := filter (\<lambda>r. rid r \<noteq> n) (productos d)\<rparr>"
  have a: "delete_productos_A pool_query pid d = respond 204 NoBody [] ?d'"
    using delete_hit [OF assms, of False]
    by (auto simp: delete_productos_A_def simp del: pool_query.simps)
  have b: "delete_productos_B pool_query pid d =
           respond 200
             (Json (JObj [(''message'', JStr ''Producto eliminado correctamente.''),
                          (''id_eliminado'', JNum n)])) [] ?d'"
    using delete_hit [OF assms, of True]
    by (auto simp: delete_productos_B_def simp del: pool_query.simps)
  have c: "distinct (map rid (productos d)) \<longrightarrow>
            length (productos d) = Suc (length (filter (\<lambda>r. rid r \<noteq> n) (productos d)))"
    using assms(2) one_row_removed [of "productos d" n] by (simp add: ids_def)
  have gone: "n \<notin> ids ?d'" by (rule removed_id)
  have e: "status (resp (delete_productos_A pool_query pid ?d')) = 404"
    using delete_miss [OF assms(1) gone, of False]
    by (simp add: delete_productos_A_def respond_def del: pool_query.simps)
  have f: "status (resp (delete_productos_B pool_query pid ?d')) = 404"
    using delete_miss [OF assms(1) gone, of True]
    by (simp add: delete_productos_B_def respond_def del: pool_query.simps)
  from a b c not_listed_A [OF gone] not_listed_B [OF gone] e f show ?thesis by blast
qed

theorem delete_existing_witness:
  "int_literal ''1'' = Some 1 \<and> 1 \<in> ids tienda_B \<and> distinct (map rid (productos tienda_B)) \<and>
   delete_productos_A pool_query ''1'' tienda_B =
     respond 204 NoBody [] \<lparr>productos = [collar_B], next_id = 3\<rparr> \<and>
   delete_productos_B pool_query ''1'' tienda_B =
     respond 200
       (Json (JObj [(''message'', JStr ''Producto eliminado correctamente.''),
                    (''id_eliminado'', JNum 1)])) []
       \<lparr>productos = [collar_B], next_id = 3\<rparr> \<and>
   length (productos tienda_B) = Suc (length [collar_B]) \<and>
   JNum 1 \<notin> json_id ` set (json_rows (get_productos_A pool_query
                                        \<lparr>productos = [collar_B], next_id = 3\<rparr>)) \<and>
   JNum 1 \<notin> json_id ` set (json_rows (get_productos_B pool_query
                                        \<lparr>productos = [collar_B], next_id = 3\<rparr>)) \<and>
   status (resp (delete_productos_A pool_query ''1'' \<lparr>productos = [collar_B], next_id = 3\<rparr>)) = 404 \<and>
   status (resp (delete_productos_B pool_query ''1'' \<lparr>productos = [collar_B], next_id = 3\<rparr>)) = 404"
proof -
  have h1: "int_literal ''1'' = Some 1"
    by (simp add: int_literal_def is_digit_def)
  have h2: "1 \<in> ids tienda_B"
    by (simp add: ids_def tienda_B_def anillo_B_def)
  have h3: "distinct (map rid (productos tienda_B))"
    by (simp add: tienda_B_def anillo_B_def collar_B_def)
  have e: "tienda_B\<lparr>productos := [collar_B]\<rparr> = \<lparr>productos = [collar_B], next_id = 3\<rparr>"
    by (simp add: tienda_B_def)
  have f: "filter (\<lambda>r. rid r \<noteq> 1) (productos tienda_B) = [collar_B]"
    by (simp add: tienda_B_def anillo_B_def collar_B_def)
  show ?thesis
    using h1 h2 h3 delete_existing [OF h1 h2] unfolding f e by simp
qed

section \<open>The root page\<close>

text \<open>
  C8, as the specification words it, fails for server.js (variant B), which registers no
  route for the root path: a GET request to \<open>/\<close> matches no route there and gets 404.
\<close>

theorem root_page_absent_in_B:
  "dispatch routes_B GET [] = None \<and> status (resp (app_B pool_query GET [] [] empty_db)) = 404"
  by (simp add: app_B_def routes_B_def resource_routes_def respond_def)

text \<open>
  C8, amended: in variant A a GET request to the root path is answered 200 with the content
  of \<open>index.html\<close> when that file exists. The root route is registered after the four
  resource routes, none of which leads to the root handler; every request that a resource
  route matches is dispatched exactly as if the root route were not there, and only a GET
  request to \<open>/\<close> reaches the root handler.
\<close>

theorem root_page_A:
  "(files ''index.html'' = Some html \<longrightarrow>
      app_A q files GET [] body d =
        \<lparr>resp = \<lparr>status = 200, payload = FileContent html\<rparr>, logged = [], store = d\<rparr>) \<and>
   routes_A = resource_routes @ [(GET, [], RootPage)] \<and>
   RootPage \<notin> (\<lambda>(m, pat, h). h) ` set resource_routes \<and>
   (dispatch resource_routes m path = Some hp \<longrightarrow> dispatch routes_A m path = Some hp) \<and>
   (dispatch routes_A m path = Some (RootPage, ps) \<longrightarrow> m = GET \<and> path = [])"
proof (intro conjI impI)
  assume "files ''index.html'' = Some html"
  then show "app_A q files GET [] body d =
        \<lparr>resp = \<lparr>status = 200, payload = FileContent html\<rparr>, logged = [], store = d\<rparr>"
    by (simp add: app_A_def routes_A_def resource_routes_def root_page_def)
next
  show "routes_A = resource_routes @ [(GET, [], RootPage)]" by (simp add: routes_A_def)
  show "RootPage \<notin> (\<lambda>(m, pat, h). h) ` set resource_routes" by (simp add: resource_routes_def)
next
  assume "dispatch resource_routes m path = Some hp"
  then show "dispatch routes_A m path = Some hp" by (simp add: routes_A_def dispatch_append)
next
  assume h: "dispatch routes_A m path = Some (RootPage, ps)"
  have "dispatch resource_routes m path \<noteq> Some (RootPage, ps)"
    using dispatch_handler [of resource_routes m path RootPage ps]
    by (auto simp: resource_routes_def)
  with h have "m = GET \<and> path = []"
    by (cases path) (auto simp: routes_A_def dispatch_append split: option.splits if_splits)
  then show "m = GET" and "path = []" by simp_all
qed

theorem root_page_A_witness:
  "[''index.html'' \<mapsto> ''<html></html>''] ''index.html'' = Some ''<html></html>'' \<and>
   app_A pool_query [''index.html'' \<mapsto> ''<html></html>''] GET [] [] empty_db =
     \<lparr>resp = \<lparr>status = 200, payload = FileContent ''<html></html>''\<rparr>, logged = [],
      store = empty_db\<rparr> \<and>
   dispatch resource_routes PUT [''api'', ''productos'', ''5''] =
     Some (UpdateProducto, [(''id'', ''5'')]) \<and>
   dispatch routes_A PUT [''api'', ''productos'', ''5''] = Some (UpdateProducto, [(''id'', ''5'')]) \<and>
   dispatch resource_routes GET [''api'', ''productos''] = Some (ListProductos, []) \<and>
   dispatch routes_A GET [''api'', ''productos''] = Some (ListProductos, []) \<and>
   dispatch routes_A GET [] = Some (RootPage, [])"
proof -
  have f: "[''index.html'' \<mapsto> ''<html></html>''] ''index.html'' = Some ''<html></html>''"
    by simp
  have p: "dispatch resource_routes PUT [''api'', ''productos'', ''5''] =
     Some (UpdateProducto, [(''id'', ''5'')])"
    by (simp add: resource_routes_def)
  have g: "dispatch resource_routes GET [''api'', ''productos''] = Some (ListProductos, [])"
    by (simp add: resource_routes_def)
  have r: "dispatch routes_A GET [] = Some (RootPage, [])"
    by (simp add: routes_A_def resource_routes_def)
  from root_page_A [of "[''index.html'' \<mapsto> ''<html></html>'']" "''<html></html>''" pool_query
         "[]" empty_db PUT "[''api'', ''productos'', ''5'']" "(UpdateProducto, [(''id'', ''5'')])"] f p
  have a: "app_A pool_query [''index.html'' \<mapsto> ''<html></html>''] GET [] [] empty_db =
     \<lparr>resp = \<lparr>status = 200, payload = FileContent ''<html></html>''\<rparr>, logged = [],
      store = empty_db\<rparr>"
    and b: "dispatch routes_A PUT [''api'', ''productos'', ''5''] = Some (UpdateProducto, [(''id'', ''5'')])"
    by blast+
  from root_page_A [of "[''index.html'' \<mapsto> ''<html></html>'']" "''<html></html>''" pool_query
         "[]" empty_db GET "[''api'', ''productos'']" "(ListProductos, [])"] g
  have c: "dispatch routes_A GET [''api'', ''productos''] = Some (ListProductos, [])"
    by blast
  from f a p b g c r show ?thesis by (intro conjI)
qed

section \<open>Update overwrites omitted fields\<close>

text \<open>
  C9: after an update whose path id is the integer \<open>n\<close>, every row of the table with id
  \<open>n\<close> holds, in each column of the statement's fixed set, the value bound from the body;
  for a field that the body omits this is SQL NULL, whatever the row held before.
\<close>

theorem update_overwrites_omitted:
  assumes "int_literal pid = Some n"
  shows "(r \<in> set (productos (store (put_productos_A pool_query pid body d))) \<and> rid r = n \<and>
          c \<in> {''nombre'', ''descripcion'', ''precio'', ''stock''} \<longrightarrow>
            col r c = prepare (field body c) \<and> (map_of body c = None \<longrightarrow> col r c = JNull)) \<and>
         (r \<in> set (productos (store (put_productos_B pool_query pid body d))) \<and> rid r = n \<and>
          c \<in> {''nombre'', ''costo_venta'', ''cantidad_disponible''} \<longrightarrow>
            col r c = prepare (field body c) \<and> (map_of body c = None \<longrightarrow> col r c = JNull))"
proof (intro conjI impI)
  assume h: "r \<in> set (productos (store (put_productos_A pool_query pid body d))) \<and> rid r = n \<and>
          c \<in> {''nombre'', ''descripcion'', ''precio'', ''stock''}"
  let ?u = "set_cols (zip [''nombre'', ''descripcion'', ''precio'', ''stock'']
                      (map prepare [field body ''nombre'', field body ''descripcion'',
                                    field body ''precio'', field body ''stock'']))"
  from h have "r \<in> set (map (\<lambda>r. if id_is (Some n) r then ?u r else r) (productos d))"
    by (simp only: put_A_store [OF assms])
  from in_updated [OF this] h obtain r' where "r = ?u r'"
    by (auto simp: rid_set_cols)
  with h show "col r c = prepare (field body c)"
    by (auto simp: set_cols_def col_update)
  then show "map_of body c = None \<Longrightarrow> col r c = JNull"
    by (simp add: prepare_omitted)
next
  assume h: "r \<in> set (productos (store (put_productos_B pool_query pid body d))) \<and> rid r = n \<and>
          c \<in> {''nombre'', ''costo_venta'', ''cantidad_disponible''}"
  let ?u = "set_cols (zip [''nombre'', ''costo_venta'', ''cantidad_disponible'']
                      (map prepare [field body ''nombre'', field body ''costo_venta'',
                                    field body ''cantidad_disponible'']))"
  from h have "r \<in> set (map (\<lambda>r. if id_is (Some n) r then ?u r else r) (productos d))"
    by (simp only: put_B_store [OF assms])
  from in_updated [OF this] h obtain r' where "r = ?u r'"
    by (auto simp: rid_set_cols)
  with h show "col r c = prepare (field body c)"
    by (auto simp: set_cols_def col_update)
  then show "map_of body c = None \<Longrightarrow> col r c = JNull"
    by (simp add: prepare_omitted)
qed

theorem update_overwrites_omitted_witness:
  "int_literal ''1'' = Some 1 \<and>
   col anillo_A ''descripcion'' = JStr ''plata'' \<and>
   anillo_A\<lparr>cols := [(''nombre'', JStr ''Aro''), (''descripcion'', JNull), (''precio'', JNull),
                     (''stock'', JNull)]\<rparr>
     \<in> set (productos (store (put_productos_A pool_query ''1'' [(''nombre'', JStr ''Aro'')] tienda_A))) \<and>
   map_of [(''nombre'', JStr ''Aro'')] ''descripcion'' = None \<and>
   col (anillo_A\<lparr>cols := [(''nombre'', JStr ''Aro''), (''descripcion'', JNull), (''precio'', JNull),
                     (''stock'', JNull)]\<rparr>) ''descripcion'' = JNull \<and>
   col anillo_B ''nombre'' = JStr ''Anillo'' \<and>
   anillo_B\<lparr>cols := [(''nombre'', JNull), (''tipo_producto'', JStr ''anillo''),
                     (''costo_venta'', JNum 9), (''cantidad_disponible'', JNull),
                     (''proveedor_id'', JNum 3), (''material'', JStr ''oro'')]\<rparr>
     \<in> set (productos (store (put_productos_B pool_query ''1'' [(''costo_venta'', JNum 9)] tienda_B))) \<and>
   map_of [(''costo_venta'', JNum 9)] ''nombre'' = None \<and>
   col (anillo_B\<lparr>cols := [(''nombre'', JNull), (''tipo_producto'', JStr ''anillo''),
                     (''costo_venta'', JNum 9), (''cantidad_disponible'', JNull),
                     (''proveedor_id'', JNum 3), (''material'', JStr ''oro'')]\<rparr>) ''nombre'' = JNull"
proof -
  let ?rA = "anillo_A\<lparr>cols := [(''nombre'', JStr ''Aro''), (''descripcion'', JNull), (''precio'', JNull),
                     (''stock'', JNull)]\<rparr>"
  let ?rB = "anillo_B\<lparr>cols := [(''nombre'', JNull), (''tipo_producto'', JStr ''anillo''),
                     (''costo_venta'', JNum 9), (''cantidad_disponible'', JNull),
                     (''proveedor_id'', JNum 3), (''material'', JStr ''oro'')]\<rparr>"
  have h1: "int_literal ''1'' = Some 1"
    by (simp add: int_literal_def is_digit_def)
  have a0: "col anillo_A ''descripcion'' = JStr ''plata''"
    by (simp add: col_def anillo_A_def)
  have a1: "?rA \<in> set (productos (store (put_productos_A pool_query ''1'' [(''nombre'', JStr ''Aro'')] tienda_A)))"
    using h1 by (simp add: put_productos_A_def respond_def Let_def field_def tienda_A_def anillo_A_def
          collar_A_def id_is_def set_cols_def)
  have a2: "rid ?rA = 1" by (simp add: anillo_A_def)
  have a3: "map_of [(''nombre'', JStr ''Aro'')] ''descripcion'' = None" by simp
  have b0: "col anillo_B ''nombre'' = JStr ''Anillo''"
    by (simp add: col_def anillo_B_def)
  have b1: "?rB \<in> set (productos (store (put_productos_B pool_query ''1'' [(''costo_venta'', JNum 9)] tienda_B)))"
    using h1 by (simp add: put_productos_B_def respond_def Let_def field_def tienda_B_def anillo_B_def
          collar_B_def id_is_def set_cols_def)
  have b2: "rid ?rB = 1" by (simp add: anillo_B_def)
  have b3: "map_of [(''costo_venta'', JNum 9)] ''nombre'' = None" by simp
  from update_overwrites_omitted [OF h1, of ?rA "[(''nombre'', JStr ''Aro'')]" tienda_A "''descripcion''"]
    a1 a2 a3
  have a: "col ?rA ''descripcion'' = JNull" by (simp add: field_def)
  from update_overwrites_omitted [OF h1, of ?rB "[(''costo_venta'', JNum 9)]" tienda_B "''nombre''"]
    b1 b2 b3
  have b: "col ?rB ''nombre'' = JNull" by (simp add: field_def)
  from h1 a0 a1 a3 a b0 b1 b3 b show ?thesis by (intro conjI)
qed

section \<open>An id that is no integer\<close>

text \<open>
  C10: whatever the datastore and whatever the path parameter, update and delete call the
  datastore with the parameter bound as the string it is, unparsed and unchecked. When
  that string is no integer literal the reference datastore rejects the statement, and
  update and delete of both variants answer 500 with their generic message, never 404,
  leaving the table as it was.
\<close>

theorem malformed_id_is_500:
  "store (put_productos_A q pid body d) =
     snd (q (UpdateReturning [''nombre'', ''descripcion'', ''precio'', ''stock''])
      [field body ''nombre'', field body ''descripcion'', field body ''precio'',
       field body ''stock'', JStr pid] d) \<and>
   store (put_productos_B q pid body d) =
     snd (q (UpdateReturning [''nombre'', ''costo_venta'', ''cantidad_disponible''])
      [field body ''nombre'', field body ''costo_venta'',
       field body ''cantidad_disponible'', JStr pid] d) \<and>
   store (delete_productos_A q pid d) = snd (q (DeleteWhereId False) [JStr pid] d) \<and>
   store (delete_productos_B q pid d) = snd (q (DeleteWhereId True) [JStr pid] d) \<and>
   (int_literal pid = None \<longrightarrow>
put_productos_A pool_query pid body d =
           respond 500 (error_body ''Error al actualizar el producto en la base de datos.'')
             [[LStr ''Error al actualizar producto:'',
               LStr (''invalid input syntax for type integer: '' @ pid)]] d \<and>
         put_productos_B pool_query pid body d =
           respond 500
             (error_details_body ''Error al actualizar el producto.''
                (Error (''invalid input syntax for type integer: '' @ pid)))
             [[LStr ''Error al actualizar producto:'',
               LErr (Error (''invalid input syntax for type integer: '' @ pid))]] d \<and>
         delete_productos_A pool_query pid d =
           respond 500 (error_body ''Error al eliminar el producto de la base de datos.'')
             [[LStr ''Error al eliminar producto:'',
               LStr (''invalid input syntax for type integer: '' @ pid)]] d \<and>
         delete_productos_B pool_query pid d =
           respond 500
             (error_details_body ''Error al eliminar el producto.''
                (Error (''invalid input syntax for type integer: '' @ pid)))
             [[LStr ''Error al eliminar producto:'',
               LErr (Error (''invalid input syntax for type integer: '' @ pid))]] d \<and>
         status (resp (put_productos_A pool_query pid body d)) \<noteq> 404 \<and>
         status (resp (put_productos_B pool_query pid body d)) \<noteq> 404 \<and>
         status (resp (delete_productos_A pool_query pid d)) \<noteq> 404 \<and>
         status (resp (delete_productos_B pool_query pid d)) \<noteq> 404)"
proof -
  have a: "int_literal pid = None \<longrightarrow>
put_productos_A pool_query pid body d =
           respond 500 (error_body ''Error al actualizar el producto en la base de datos.'')
             [[LStr ''Error al actualizar producto:'',
               LStr (''invalid input syntax for type integer: '' @ pid)]] d \<and>
         put_productos_B pool_query pid body d =
           respond 500
             (error_details_body ''Error al actualizar el producto.''
                (Error (''invalid input syntax for type integer: '' @ pid)))
             [[LStr ''Error al actualizar producto:'',
               LErr (Error (''invalid input syntax for type integer: '' @ pid))]] d \<and>
         delete_productos_A pool_query pid d =
           respond 500 (error_body ''Error al eliminar el producto de la base de datos.'')
             [[LStr ''Error al eliminar producto:'',
               LStr (''invalid input syntax for type integer: '' @ pid)]] d \<and>
         delete_productos_B pool_query pid d =
           respond 500
             (error_details_body ''Error al eliminar el producto.''
                (Error (''invalid input syntax for type integer: '' @ pid)))
             [[LStr ''Error al eliminar producto:'',
               LErr (Error (''invalid input syntax for type integer: '' @ pid))]] d \<and>
         status (resp (put_productos_A pool_query pid body d)) \<noteq> 404 \<and>
         status (resp (put_productos_B pool_query pid body d)) \<noteq> 404 \<and>
         status (resp (delete_productos_A pool_query pid d)) \<noteq> 404 \<and>
         status (resp (delete_productos_B pool_query pid d)) \<noteq> 404"
    using bad_id_500 [of pid body d] by blast
  from put_A_store_q [of q pid body d] put_B_store_q [of q pid body d]
    delete_A_store_q [of q pid d] delete_B_store_q [of q pid d] a
  show ?thesis by (intro conjI)
qed

theorem malformed_id_is_500_witness:
  "int_literal ''abc'' = None \<and>
   put_productos_A pool_query ''abc'' [(''nombre'', JStr ''Aro'')] tienda_A =
     respond 500 (error_body ''Error al actualizar el producto en la base de datos.'')
       [[LStr ''Error al actualizar producto:'',
         LStr ''invalid input syntax for type integer: abc'']] tienda_A \<and>
   put_productos_B pool_query ''abc'' [(''nombre'', JStr ''Aro'')] tienda_A =
     respond 500
       (error_details_body ''Error al actualizar el producto.''
          (Error ''invalid input syntax for type integer: abc''))
       [[LStr ''Error al actualizar producto:'',
         LErr (Error ''invalid input syntax for type integer: abc'')]] tienda_A \<and>
   delete_productos_A pool_query ''abc'' tienda_A =
     respond 500 (error_body ''Error al eliminar el producto de la base de datos.'')
       [[LStr ''Error al eliminar producto:'',
         LStr ''invalid input syntax for type integer: abc'']] tienda_A \<and>
   delete_productos_B pool_query ''abc'' tienda_A =
     respond 500
       (error_details_body ''Error al eliminar el producto.''
          (Error ''invalid input syntax for type integer: abc''))
       [[LStr ''Error al eliminar producto:'',
         LErr (Error ''invalid input syntax for type integer: abc'')]] tienda_A"
proof -
  have h: "int_literal ''abc'' = None"
    by (simp add: int_literal_def is_digit_def)
  from h malformed_id_is_500 [of pool_query "''abc''" "[(''nombre'', JStr ''Aro'')]" tienda_A]
  show ?thesis by (simp del: pool_query.simps)
qed

end
